theory Spec2Isabelle
  imports Complex_Main "HOL-Library.Log_Nat"
begin

section \<open>Financial Advisory Calculation Engine\<close>

text \<open>
  A shallow embedding of the five calculators of
  \<^verbatim>\<open>financial_tools_with_memory_agent.py\<close>. Each calculator takes the argument mapping
  (a record here) and builds a text report; the model returns the numbers the report
  interpolates, in the order the source computes them, and \<open>Inl\<close> of the exception where
  the source raises.

  Numbers. Python's \<open>int\<close> is \<open>int\<close>. A Python \<open>float\<close> is a binary64 value, hence a
  rational number, and is carried as a \<open>rat\<close>. The allocation engine uses only \<open>/\<close> and
  \<open>*\<close>, which IEEE 754 rounds to the nearest binary64 value, ties to even; its amounts are
  modelled with that rounding, bit for bit. The growth, retirement and comparison
  calculators go through \<open>**\<close>, which is the C library's \<open>pow\<close> and has no portable
  rounding; they are modelled in exact rational arithmetic, so the theorems about them speak
  of the formulas and the branches taken, not of the last bit of a result.
\<close>

subsection \<open>Exceptions and the fallible operators\<close>

datatype py_error = ZeroDivisionError | OverflowError

definition bind_result :: "py_error + 'a \<Rightarrow> ('a \<Rightarrow> py_error + 'b) \<Rightarrow> py_error + 'b" where
  "bind_result m f = (case m of Inl e \<Rightarrow> Inl e | Inr v \<Rightarrow> f v)"

text \<open>\<open>x ** n\<close> for a float \<open>x\<close> and an int \<open>n\<close>: zero to a negative power raises.\<close>

definition py_pow :: "rat \<Rightarrow> int \<Rightarrow> py_error + rat" where
  "py_pow x n = (if x = 0 \<and> n < 0 then Inl ZeroDivisionError else Inr (x powi n))"

text \<open>\<open>a / b\<close> on floats: a zero divisor raises.\<close>

definition py_div :: "rat \<Rightarrow> rat \<Rightarrow> py_error + rat" where
  "py_div a b = (if b = 0 then Inl ZeroDivisionError else Inr (a / b))"

text \<open>\<open>range(i, stop, step)\<close> for a positive step.\<close>

function py_range :: "int \<Rightarrow> int \<Rightarrow> int \<Rightarrow> int list" where
  "py_range i stop step =
     (if 0 < step \<and> i < stop then i # py_range (i + step) stop step else [])"
  by pat_completeness auto
termination
  by (relation "measure (\<lambda>(i, stop, step). nat (stop - i))") auto

declare py_range.simps [simp del]

subsection \<open>Binary64 arithmetic\<close>

text \<open>Rounding to the nearest integer, ties to the even one.\<close>

definition round_half_even :: "rat \<Rightarrow> int" where
  "round_half_even y =
     (let f = \<lfloor>y\<rfloor>; d = y - of_int f
      in if d < 1 / 2 then f else if 1 / 2 < d then f + 1 else if even f then f else f + 1)"

text \<open>The binary exponent of a nonzero \<open>x\<close>: the \<open>e\<close> with \<open>2^e \<le> |x| < 2^(e+1)\<close>.\<close>

definition ilog2 :: "rat \<Rightarrow> int" where
  "ilog2 x =
     (let (p, q) = quotient_of \<bar>x\<bar>; k = bitlen p - bitlen q
      in if 2 powi k \<le> \<bar>x\<bar> then k else k - 1)"

text \<open>
  The spacing of the binary64 values around \<open>x\<close>: 53 significant bits, and the fixed spacing
  \<open>2^-1074\<close> of the subnormal range below \<open>2^-1022\<close>.
\<close>

definition quantum :: "rat \<Rightarrow> rat" where
  "quantum x = 2 powi (max (ilog2 x) (- 1022) - 52)"

definition round_binary64 :: "rat \<Rightarrow> rat" where
  "round_binary64 x =
     (if x = 0 then 0 else of_int (round_half_even (x / quantum x)) * quantum x)"

text \<open>
  A float is finite, an infinity (\<open>True\<close> for the negative one) or not a number. A result
  that rounds to \<open>2^1024\<close> or beyond is an infinity.
\<close>

datatype pyfloat = Finite rat | Infinity bool | NaN

definition to_float :: "rat \<Rightarrow> pyfloat" where
  "to_float x =
     (let r = round_binary64 x in if \<bar>r\<bar> \<ge> 2 ^ 1024 then Infinity (r < 0) else Finite r)"

fun float_mul :: "pyfloat \<Rightarrow> pyfloat \<Rightarrow> pyfloat" where
  "float_mul (Finite a) (Finite b) = to_float (a * b)"
| "float_mul (Infinity s) (Finite b) = (if b = 0 then NaN else Infinity (s \<noteq> (b < 0)))"
| "float_mul (Finite a) (Infinity t) = (if a = 0 then NaN else Infinity ((a < 0) \<noteq> t))"
| "float_mul (Infinity s) (Infinity t) = Infinity (s \<noteq> t)"
| "float_mul NaN y = NaN"
| "float_mul x NaN = NaN"

fun float_add :: "pyfloat \<Rightarrow> pyfloat \<Rightarrow> pyfloat" where
  "float_add (Finite a) (Finite b) = to_float (a + b)"
| "float_add (Infinity s) (Finite b) = Infinity s"
| "float_add (Finite a) (Infinity t) = Infinity t"
| "float_add (Infinity s) (Infinity t) = (if s = t then Infinity s else NaN)"
| "float_add NaN y = NaN"
| "float_add x NaN = NaN"

text \<open>
  \<open>a / b\<close> on two ints: the exact quotient, rounded once; it raises where the divisor is zero
  and where the quotient is too large for a float.
\<close>

definition int_true_div :: "int \<Rightarrow> int \<Rightarrow> py_error + pyfloat" where
  "int_true_div a b =
     (if b = 0 then Inl ZeroDivisionError
      else (let r = round_binary64 (of_int a / of_int b)
            in if \<bar>r\<bar> \<ge> 2 ^ 1024 then Inl OverflowError else Inr (Finite r)))"

text \<open>A decimal literal such as \<open>0.7\<close> denotes the binary64 value nearest to it.\<close>

definition float_literal :: "rat \<Rightarrow> pyfloat" where
  "float_literal x = Finite (round_binary64 x)"

subsection \<open>Strings\<close>

text \<open>
  \<open>str.lower\<close> on the bytes of the string: the ASCII capitals map to their small letters.
  The lowered strings are only ever compared with ASCII literals that contain no \<open>k\<close>, the
  one ASCII letter that a non-ASCII character lowers to, so the comparisons agree with
  Python's.
\<close>

definition lower_char :: "char \<Rightarrow> char" where
  "lower_char c =
     (let n = (of_char c :: nat) in if 65 \<le> n \<and> n \<le> 90 then char_of (n + 32) else c)"

definition lower_str :: "string \<Rightarrow> string" where
  "lower_str s = map lower_char s"

subsection \<open>Allocation rule engine\<close>

record AllocationRequest =
  age :: int
  risk_tolerance :: string
  total_amount :: rat

record AllocationResult =
  stock_pct :: int
  bond_pct :: int
  stock_amount :: pyfloat
  bond_amount :: pyfloat
  index_funds :: pyfloat
  international_stocks :: pyfloat
  individual_stocks :: pyfloat
  government_bonds :: pyfloat
  corporate_bonds :: pyfloat

definition calculate_portfolio_allocation :: "AllocationRequest \<Rightarrow> py_error + AllocationResult" where
  "calculate_portfolio_allocation args =
     (let risk = lower_str (risk_tolerance args);
          total = Finite (total_amount args);
          base_stock_pct = 100 - age args;
          stock = (if risk = ''conservative'' then max 20 (base_stock_pct - 15)
                   else if risk = ''aggressive'' then min 90 (base_stock_pct + 15)
                   else base_stock_pct);
          bond = 100 - stock
      in bind_result (int_true_div stock 100) (\<lambda>stock_share.
         let stock_amt = float_mul total stock_share
         in bind_result (int_true_div bond 100) (\<lambda>bond_share.
            let bond_amt = float_mul total bond_share
            in Inr \<lparr>stock_pct = stock, bond_pct = bond,
                    stock_amount = stock_amt, bond_amount = bond_amt,
                    index_funds = float_mul stock_amt (float_literal (7 / 10)),
                    international_stocks = float_mul stock_amt (float_literal (2 / 10)),
                    individual_stocks = float_mul stock_amt (float_literal (1 / 10)),
                    government_bonds = float_mul bond_amt (float_literal (6 / 10)),
                    corporate_bonds = float_mul bond_amt (float_literal (4 / 10))\<rparr>)))"

text \<open>
  The allocation rule as the specification words it, on the three risk levels, and the
  tolerance test of the two amounts against the total.
\<close>

datatype risk_level = Conservative | Moderate | Aggressive

fun risk_name :: "risk_level \<Rightarrow> string" where
  "risk_name Conservative = ''conservative''"
| "risk_name Moderate = ''moderate''"
| "risk_name Aggressive = ''aggressive''"

fun spec_stock_pct :: "int \<Rightarrow> risk_level \<Rightarrow> int" where
  "spec_stock_pct a Conservative = max 20 ((100 - a) - 15)"
| "spec_stock_pct a Aggressive = min 90 ((100 - a) + 15)"
| "spec_stock_pct a Moderate = 100 - a"

definition amounts_sum_to :: "pyfloat \<Rightarrow> pyfloat \<Rightarrow> rat \<Rightarrow> bool" where
  "amounts_sum_to x y t =
     (case (x, y) of (Finite a, Finite b) \<Rightarrow> \<bar>a + b - t\<bar> \<le> 1 / 10 ^ 6 | _ \<Rightarrow> False)"

subsection \<open>Compound growth projector\<close>

record GrowthRequest =
  principal :: rat
  annual_rate :: rat
  years :: int
  monthly_contribution :: rat

record GrowthResult =
  total_invested :: rat
  future_value :: rat
  total_gain :: rat
  roi_pct :: rat
  yearly_series :: "(int \<times> rat) list"

text \<open>
  The two future-value expressions, which the source writes out once for the totals and
  once more inside the year-by-year loop:
  \<^verbatim>\<open>principal * ((1 + monthly_rate) ** months)\<close> and, under \<^verbatim>\<open>if monthly_contrib > 0\<close>,
  \<^verbatim>\<open>monthly_contrib * (((1 + monthly_rate) ** months - 1) / monthly_rate)\<close>, else 0.
\<close>

definition fv_principal_at :: "rat \<Rightarrow> rat \<Rightarrow> int \<Rightarrow> py_error + rat" where
  "fv_principal_at p monthly_rate months =
     bind_result (py_pow (1 + monthly_rate) months) (\<lambda>g. Inr (p * g))"

definition fv_contributions_at :: "rat \<Rightarrow> rat \<Rightarrow> int \<Rightarrow> py_error + rat" where
  "fv_contributions_at monthly_contrib monthly_rate months =
     (if monthly_contrib > 0 then
        bind_result (py_pow (1 + monthly_rate) months) (\<lambda>g.
        bind_result (py_div (g - 1) monthly_rate) (\<lambda>q.
        Inr (monthly_contrib * q)))
      else Inr 0)"

fun year_by_year :: "rat \<Rightarrow> rat \<Rightarrow> rat \<Rightarrow> int list \<Rightarrow> py_error + (int \<times> rat) list" where
  "year_by_year p monthly_contrib monthly_rate [] = Inr []"
| "year_by_year p monthly_contrib monthly_rate (year # rest) =
     bind_result (fv_principal_at p monthly_rate (year * 12)) (\<lambda>fv_p.
     bind_result (fv_contributions_at monthly_contrib monthly_rate (year * 12)) (\<lambda>fv_c.
     bind_result (year_by_year p monthly_contrib monthly_rate rest) (\<lambda>tl.
     Inr ((year, fv_p + fv_c) # tl))))"

definition calculate_compound_interest :: "GrowthRequest \<Rightarrow> py_error + GrowthResult" where
  "calculate_compound_interest args =
     (let p = principal args;
          rate = annual_rate args / 100;
          yrs = years args;
          monthly_contrib = monthly_contribution args;
          monthly_rate = rate / 12;
          months = yrs * 12
      in bind_result (fv_principal_at p monthly_rate months) (\<lambda>fv_principal.
         bind_result (fv_contributions_at monthly_contrib monthly_rate months) (\<lambda>fv_contributions.
         let total_fv = fv_principal + fv_contributions;
             invested = p + monthly_contrib * of_int months;
             total_gains = total_fv - invested
         in bind_result (py_div total_gains invested) (\<lambda>q.
            let step = (if yrs > 10 then 5 else 1)
            in bind_result
                 (year_by_year p monthly_contrib monthly_rate (py_range step (yrs + 1) step))
                 (\<lambda>series.
                   Inr \<lparr>total_invested = invested, future_value = total_fv,
                        total_gain = total_gains, roi_pct = q * 100,
                        yearly_series = series\<rparr>)))))"


subsection \<open>Stock metric classifier\<close>

record StockEvaluationRequest =
  stock_name :: string
  current_price :: rat
  pe_ratio :: rat
  dividend_yield :: rat
  revenue_growth :: rat
  debt_to_equity :: rat

text \<open>
  Every signal is a string that starts with one of three marks (a check mark, a circle, a
  warning sign); the counts below test that first character. A signal is modelled as its mark
  and the rest of the line.
\<close>

datatype mark = Favorable | Neutral | Warning

datatype verdict = POSITIVE | CAUTIOUS | NEUTRAL

record StockEvaluationResult =
  signals :: "(mark \<times> string) list"
  positive_signals :: nat
  warning_signals :: nat
  overall :: verdict

definition evaluate_stock_metrics :: "StockEvaluationRequest \<Rightarrow> StockEvaluationResult" where
  "evaluate_stock_metrics args =
     (let pe = pe_ratio args;
          div_yield = dividend_yield args;
          growth = revenue_growth args;
          debt = debt_to_equity args;
          s1 = (if pe < 15 then
                  (Favorable, ''P/E Ratio: ATTRACTIVE (< 15) - Stock may be undervalued'')
                else if pe < 25 then
                  (Neutral, ''P/E Ratio: FAIR (15-25) - Reasonably valued'')
                else
                  (Warning, ''P/E Ratio: HIGH (> 25) - Stock may be overvalued or high-growth''));
          s2 = (if div_yield > 3 then
                  (Favorable, ''Dividend Yield: STRONG (> 3%) - Good income potential'')
                else if div_yield > 1 then
                  (Neutral, ''Dividend Yield: MODERATE (1-3%) - Some income'')
                else
                  (Neutral, ''Dividend Yield: LOW (< 1%) - Growth-focused company''));
          s3 = (if growth > 20 then
                  (Favorable, ''Revenue Growth: EXCELLENT (> 20%) - Strong expansion'')
                else if growth > 10 then
                  (Favorable, ''Revenue Growth: GOOD (10-20%) - Solid growth'')
                else if growth > 0 then
                  (Neutral, ''Revenue Growth: MODEST (0-10%) - Stable company'')
                else
                  (Warning, ''Revenue Growth: DECLINING - Revenue concerns''));
          s4 = (if debt < 1 / 2 then
                  (Favorable, ''Debt Level: LOW (< 0.5) - Strong balance sheet'')
                else if debt < 3 / 2 then
                  (Neutral, ''Debt Level: MODERATE (0.5-1.5) - Manageable debt'')
                else
                  (Warning, ''Debt Level: HIGH (> 1.5) - Leverage concerns''));
          sigs = [s1, s2, s3, s4];
          pos = length (filter (\<lambda>s. fst s = Favorable) sigs);
          warn = length (filter (\<lambda>s. fst s = Warning) sigs)
      in \<lparr>signals = sigs, positive_signals = pos, warning_signals = warn,
          overall = (if pos \<ge> 3 then POSITIVE else if warn \<ge> 2 then CAUTIOUS else NEUTRAL)\<rparr>)"

text \<open>
  The same classification as the specification words it: one label per metric from fixed
  thresholds, and a verdict from the two counts.
\<close>

definition spec_pe_label :: "rat \<Rightarrow> mark" where
  "spec_pe_label pe = (if pe < 15 then Favorable else if pe < 25 then Neutral else Warning)"

definition spec_dividend_label :: "rat \<Rightarrow> mark" where
  "spec_dividend_label y = (if y > 3 then Favorable else Neutral)"

definition spec_revenue_label :: "rat \<Rightarrow> mark" where
  "spec_revenue_label g = (if g > 10 then Favorable else if g > 0 then Neutral else Warning)"

definition spec_debt_label :: "rat \<Rightarrow> mark" where
  "spec_debt_label d = (if d < 1 / 2 then Favorable else if d < 3 / 2 then Neutral else Warning)"

definition spec_labels :: "StockEvaluationRequest \<Rightarrow> mark list" where
  "spec_labels args =
     [spec_pe_label (pe_ratio args), spec_dividend_label (dividend_yield args),
      spec_revenue_label (revenue_growth args), spec_debt_label (debt_to_equity args)]"

definition spec_verdict :: "mark list \<Rightarrow> verdict" where
  "spec_verdict ms =
     (if count_list ms Favorable \<ge> 3 then POSITIVE
      else if count_list ms Warning \<ge> 2 then CAUTIOUS
      else NEUTRAL)"

subsection \<open>Retirement needs solver\<close>

record RetirementRequest =
  current_age :: int
  retirement_age :: int
  current_savings :: rat
  desired_annual_income :: rat
  expected_return :: rat

text \<open>
  The fields are the numbers the report prints: \<open>additional_needed\<close> is the printed
  \<^verbatim>\<open>max(0, additional_needed)\<close>, \<open>required_monthly_saving\<close> the printed
  \<^verbatim>\<open>monthly_contribution\<close>.
\<close>

record RetirementResult =
  years_to_retirement :: int
  retirement_years :: int
  corpus_needed :: rat
  projected_current_savings :: rat
  additional_needed :: rat
  required_monthly_saving :: rat

definition calculate_retirement_needs :: "RetirementRequest \<Rightarrow> py_error + RetirementResult" where
  "calculate_retirement_needs args =
     (let annual_income = desired_annual_income args;
          ret = expected_return args / 100;
          yrs = retirement_age args - current_age args;
          life_expectancy = 90;
          retirement_corpus = annual_income * 25
      in bind_result (py_pow (1 + ret) yrs) (\<lambda>g.
         let fv_current = current_savings args * g;
             additional = retirement_corpus - fv_current
         in bind_result
              (if additional > 0 then
                 (let monthly_rate = ret / 12; months = yrs * 12
                  in bind_result (py_pow (1 + monthly_rate) months) (\<lambda>h.
                     py_div (additional * monthly_rate) (h - 1)))
               else Inr 0)
              (\<lambda>monthly_contrib.
                Inr \<lparr>years_to_retirement = yrs,
                     retirement_years = life_expectancy - retirement_age args,
                     corpus_needed = retirement_corpus,
                     projected_current_savings = fv_current,
                     additional_needed = max 0 additional,
                     required_monthly_saving = monthly_contrib\<rparr>)))"

subsection \<open>Investment comparator\<close>

record ComparisonRequest =
  option_a_name :: string
  option_a_return :: rat
  option_a_risk :: string
  option_b_name :: string
  option_b_return :: rat
  option_b_risk :: string
  investment_amount :: rat
  time_horizon :: int

datatype option_id = OptionA | OptionB

text \<open>
  The comparison line reads \<open>{winner} will be ${difference:,.2f} higher than {loser}\<close>; the
  recommendation line either names one option (\<open>offers better risk-adjusted returns\<close>) or says
  \<open>Both options are comparable; choose based on your risk tolerance\<close>.
\<close>

datatype recommendation = Better option_id | Comparable

record ComparisonResult =
  fv_a :: rat
  fv_b :: rat
  gain_a :: rat
  gain_b :: rat
  risk_adj_return_a :: rat
  risk_adj_return_b :: rat
  higher :: option_id
  difference :: rat
  than :: option_id
  recommended :: recommendation

definition risk_scores :: "string \<rightharpoonup> int" where
  "risk_scores = [''low'' \<mapsto> 1, ''medium'' \<mapsto> 2, ''high'' \<mapsto> 3]"

text \<open>\<^verbatim>\<open>risk_scores.get(risk.lower(), 2)\<close>\<close>

definition risk_score :: "string \<Rightarrow> int" where
  "risk_score risk = (case risk_scores (lower_str risk) of Some v \<Rightarrow> v | None \<Rightarrow> 2)"

text \<open>The factor \<open>1.2\<close> of the recommendation test is taken as the exact \<open>6/5\<close>.\<close>

definition compare_investment_options :: "ComparisonRequest \<Rightarrow> py_error + ComparisonResult" where
  "compare_investment_options args =
     (let return_a = option_a_return args / 100;
          return_b = option_b_return args / 100;
          amount = investment_amount args;
          yrs = time_horizon args
      in bind_result (py_pow (1 + return_a) yrs) (\<lambda>ga.
         bind_result (py_pow (1 + return_b) yrs) (\<lambda>gb.
         let fva = amount * ga;
             fvb = amount * gb;
             risk_score_a = risk_score (option_a_risk args);
             risk_score_b = risk_score (option_b_risk args)
         in bind_result (py_div (option_a_return args - 2) (of_int risk_score_a)) (\<lambda>ra.
            bind_result (py_div (option_b_return args - 2) (of_int risk_score_b)) (\<lambda>rb.
            Inr \<lparr>fv_a = fva, fv_b = fvb, gain_a = fva - amount, gain_b = fvb - amount,
                 risk_adj_return_a = ra, risk_adj_return_b = rb,
                 higher = (if fva > fvb then OptionA else OptionB),
                 difference = (if fva > fvb then fva - fvb else fvb - fva),
                 than = (if fva > fvb then OptionB else OptionA),
                 recommended =
                   (if ra > rb * (6 / 5) then Better OptionA
                    else if rb > ra * (6 / 5) then Better OptionB
                    else Comparable)\<rparr>)))))"

subsection \<open>Properties of the compound growth projector\<close>

lemma bind_result_Inl [simp]: "bind_result (Inl e) f = Inl e"
  by (simp add: bind_result_def)

lemma bind_result_Inr [simp]: "bind_result (Inr v) f = f v"
  by (simp add: bind_result_def)

text \<open>
  C1. At a 0% annual rate with a positive monthly contribution the annuity term divides by
  the monthly rate, which is zero: the calculator raises \<open>ZeroDivisionError\<close> and returns no
  future value (the request \<open>principal=1000, annual_rate=0, years=10,
  monthly_contribution=100\<close> included).
\<close>

theorem zero_rate_annuity_raises:
  assumes "annual_rate args = 0" and "monthly_contribution args > 0"
  shows "calculate_compound_interest args = Inl ZeroDivisionError"
  using assms
  by (simp add: calculate_compound_interest_def fv_principal_at_def fv_contributions_at_def
      py_pow_def py_div_def Let_def)

theorem zero_rate_annuity_raises_witness:
  "calculate_compound_interest
     \<lparr>principal = 1000, annual_rate = 0, years = 10, monthly_contribution = 100\<rparr>
   = Inl ZeroDivisionError"
  using zero_rate_annuity_raises
    [of "\<lparr>principal = 1000, annual_rate = 0, years = 10, monthly_contribution = 100\<rparr>"]
  by simp


lemma growth_zero_invested:
  "principal g + monthly_contribution g * of_int (years g * 12) = 0
     \<Longrightarrow> calculate_compound_interest g = Inl ZeroDivisionError"
  by (simp add: calculate_compound_interest_def fv_principal_at_def fv_contributions_at_def
      py_pow_def py_div_def Let_def)












subsection \<open>Properties of the retirement needs solver\<close>

lemma retirement_zero_rate:
  "expected_return r = 0 \<Longrightarrow> current_savings r < desired_annual_income r * 25
     \<Longrightarrow> calculate_retirement_needs r = Inl ZeroDivisionError"
  by (simp add: calculate_retirement_needs_def py_pow_def py_div_def Let_def)

text \<open>
  C2. The zero denominators are not handled by any branch. When the total invested is zero
  (principal 0 and contribution 0, for one) the return-on-investment division of the growth
  projector raises \<open>ZeroDivisionError\<close>; when the expected return is 0% and the savings fall
  short of the corpus, the payment division of the retirement solver raises it as well. In
  both cases the exception leaves the calculator and no report is returned.
\<close>

theorem zero_denominators_raise:
  "(principal g + monthly_contribution g * of_int (years g * 12) = 0
      \<longrightarrow> calculate_compound_interest g = Inl ZeroDivisionError)
   \<and> (expected_return r = 0 \<and> current_savings r < desired_annual_income r * 25
      \<longrightarrow> calculate_retirement_needs r = Inl ZeroDivisionError)"
  using growth_zero_invested [of g] retirement_zero_rate [of r] by blast

theorem zero_denominators_raise_witness:
  "calculate_compound_interest
     \<lparr>principal = 0, annual_rate = 5, years = 10, monthly_contribution = 0\<rparr>
     = Inl ZeroDivisionError
   \<and> calculate_retirement_needs
     \<lparr>current_age = 30, retirement_age = 65, current_savings = 0,
      desired_annual_income = 40000, expected_return = 0\<rparr>
     = Inl ZeroDivisionError"
  using zero_denominators_raise
    [of "\<lparr>principal = 0, annual_rate = 5, years = 10, monthly_contribution = 0\<rparr>"
        "\<lparr>current_age = 30, retirement_age = 65, current_savings = 0,
          desired_annual_income = 40000, expected_return = 0\<rparr>"]
  by simp



subsection \<open>Properties of the stock metric classifier\<close>

lemma count_marks: "length (filter (\<lambda>s. fst s = m) xs) = count_list (map fst xs) m"
  by (induction xs) auto

lemma signal_marks: "map fst (signals (evaluate_stock_metrics args)) = spec_labels args"
  apply (simp add: evaluate_stock_metrics_def Let_def spec_labels_def split del: if_split)
  apply (intro conjI)
     apply (simp add: spec_pe_label_def)
    apply (simp add: spec_dividend_label_def)
   apply (simp add: spec_revenue_label_def)
  apply (simp add: spec_debt_label_def)
  done

lemma overall_verdict:
  "overall (evaluate_stock_metrics args)
   = spec_verdict (map fst (signals (evaluate_stock_metrics args)))"
  by (simp only: evaluate_stock_metrics_def Let_def spec_verdict_def count_marks
      StockEvaluationResult.simps)

text \<open>
  C4. For every request the four signals carry, in order, the labels that the fixed thresholds
  give (a low dividend yield is neutral, never a warning), and the verdict is POSITIVE when at
  least three labels are favorable, otherwise CAUTIOUS when at least two are warnings,
  otherwise NEUTRAL. The stock with \<open>pe=14.9\<close>, \<open>dividend_yield=3.1\<close>, \<open>revenue_growth=21\<close>,
  \<open>debt_to_equity=0.4\<close> gets four favorable signals and the verdict POSITIVE.
\<close>

theorem stock_labels_and_verdict:
  "map fst (signals (evaluate_stock_metrics args)) = spec_labels args
   \<and> overall (evaluate_stock_metrics args) = spec_verdict (spec_labels args)
   \<and> map fst (signals (evaluate_stock_metrics
        \<lparr>stock_name = ''X'', current_price = 100, pe_ratio = 149 / 10,
         dividend_yield = 31 / 10, revenue_growth = 21, debt_to_equity = 4 / 10\<rparr>))
       = [Favorable, Favorable, Favorable, Favorable]
   \<and> overall (evaluate_stock_metrics
        \<lparr>stock_name = ''X'', current_price = 100, pe_ratio = 149 / 10,
         dividend_yield = 31 / 10, revenue_growth = 21, debt_to_equity = 4 / 10\<rparr>) = POSITIVE"
proof -
  let ?x = "\<lparr>stock_name = ''X'', current_price = 100, pe_ratio = 149 / 10,
         dividend_yield = 31 / 10, revenue_growth = 21, debt_to_equity = 4 / 10\<rparr>"
  have labels: "spec_labels ?x = [Favorable, Favorable, Favorable, Favorable]"
    by (simp add: spec_labels_def spec_pe_label_def spec_dividend_label_def
        spec_revenue_label_def spec_debt_label_def)
  have "spec_verdict [Favorable, Favorable, Favorable, Favorable] = POSITIVE"
    by (simp add: spec_verdict_def)
  with labels show ?thesis
    by (simp only: signal_marks overall_verdict simp_thms)
qed

subsection \<open>Properties of the investment comparator\<close>


lemma lower_medium: "lower_str ''medium'' = ''medium''"
  by code_simp


lemma risk_score_medium: "risk_score ''medium'' = 2"
  by (simp add: risk_score_def risk_scores_def lower_medium)

text \<open>
  C5. Two options with the same 1% return and the same medium risk have the same
  risk-adjusted score, \<open>-1/2\<close>. The test \<open>a > b * 1.2\<close> compares \<open>-1/2\<close> with \<open>-3/5\<close> and
  holds, so the report recommends option A over an option with an identical score.
\<close>

theorem equal_negative_scores_name_a:
  "compare_investment_options
     \<lparr>option_a_name = ''A'', option_a_return = 1, option_a_risk = ''medium'',
      option_b_name = ''B'', option_b_return = 1, option_b_risk = ''medium'',
      investment_amount = 10000, time_horizon = 10\<rparr>
   = Inr \<lparr>fv_a = 110462212541120451001 / 10000000000000000,
        fv_b = 110462212541120451001 / 10000000000000000,
        gain_a = 10462212541120451001 / 10000000000000000,
        gain_b = 10462212541120451001 / 10000000000000000,
        risk_adj_return_a = - (1 / 2), risk_adj_return_b = - (1 / 2),
        higher = OptionB, difference = 0, than = OptionA,
        recommended = Better OptionA\<rparr>"
  by (simp add: compare_investment_options_def py_pow_def py_div_def Let_def risk_score_medium
      power_divide)



end
